theory Spec2Isabelle
  imports Complex_Main "HOL-Library.Word" "HOL-Library.Sublist"
begin

section \<open>JavaScript strings and the built-ins the screens call\<close>

text \<open>
  A JavaScript string is a sequence of 16-bit code units. String literals of the source
  are written \<open>js ''...''\<close>.
\<close>

type_synonym code_unit = "16 word"
type_synonym jsstring = "code_unit list"

definition js :: "string \<Rightarrow> jsstring" where
  "js s = map of_char s"

text \<open>\<open>s.startsWith(p)\<close>: the first \<open>p.length\<close> code units of \<open>s\<close> are \<open>p\<close>.\<close>

definition startsWith :: "jsstring \<Rightarrow> jsstring \<Rightarrow> bool" where
  "startsWith s p = (take (length p) s = p)"

text \<open>\<open>s.includes(p)\<close>: \<open>p\<close> occurs at some position of \<open>s\<close>, scanning from the left.\<close>

fun includes_s :: "jsstring \<Rightarrow> jsstring \<Rightarrow> bool" where
  "includes_s [] p = (p = [])"
| "includes_s (c # cs) p = (startsWith (c # cs) p \<or> includes_s cs p)"

text \<open>
  The code units that \<open>String.prototype.trim\<close> strips: ECMAScript's WhiteSpace
  (TAB, VT, FF, SP, NBSP, ZWNBSP and the other space separators) and LineTerminator
  (LF, CR, LS, PS).
\<close>

definition isWhiteSpace :: "code_unit \<Rightarrow> bool" where
  "isWhiteSpace c =
     (c = 0x9 \<or> c = 0xA \<or> c = 0xB \<or> c = 0xC \<or> c = 0xD \<or> c = 0x20 \<or> c = 0xA0
      \<or> c = 0x1680 \<or> (0x2000 \<le> c \<and> c \<le> 0x200A) \<or> c = 0x2028 \<or> c = 0x2029
      \<or> c = 0x202F \<or> c = 0x205F \<or> c = 0x3000 \<or> c = 0xFEFF)"

definition trim :: "jsstring \<Rightarrow> jsstring" where
  "trim s = rev (dropWhile isWhiteSpace (rev (dropWhile isWhiteSpace s)))"


text \<open>
  Number to string, for a number that holds a natural number below \<open>10^21\<close>: its decimal
  digits, no sign, no exponent.
\<close>

definition digitChar :: "nat \<Rightarrow> code_unit" where
  "digitChar d = of_nat (48 + d)"

fun numToString :: "nat \<Rightarrow> jsstring" where
  "numToString n =
     (if n < 10 then [digitChar n] else numToString (n div 10) @ [digitChar (n mod 10)])"

declare numToString.simps [simp del]

text \<open>
  \<open>x.toFixed(1)\<close> for \<open>x = num / den\<close> with \<open>0 \<le> x < 10^21\<close>, following the steps
  of \<open>Number.prototype.toFixed\<close> with \<open>f = 1\<close>: \<open>n\<close> is the integer for which
  \<open>n / 10 - x\<close> is closest to zero, the larger one of two; \<open>m\<close> is its decimal digits,
  padded on the left with zeros to \<open>f + 1\<close> digits; the point goes before the last
  \<open>f\<close> digits.
\<close>

definition toFixed1 :: "nat \<Rightarrow> nat \<Rightarrow> jsstring" where
  "toFixed1 num den =
     (let n = (20 * num + den) div (2 * den);
          m = numToString n;
          m = (if length m \<le> 1 then replicate (2 - length m) (digitChar 0) @ m else m);
          k = length m
      in take (k - 1) m @ js ''.'' @ drop (k - 1) m)"

section \<open>Support screen (src/pages/admin/Support.tsx)\<close>

datatype attachment_type = Image | Document | Audio | Other

text \<open>The fields of a browser \<open>File\<close> that the screen reads.\<close>

record js_file =
  file_name :: jsstring
  file_type :: jsstring
  file_size :: nat

record attachment =
  att_id :: jsstring
  att_name :: jsstring
  att_type :: attachment_type
  att_url :: jsstring
  att_size :: jsstring

text \<open>\<open>MessageWithAttachment\<close>; \<open>None\<close> is an \<open>attachments\<close> field that is undefined.\<close>

record message_with_attachment =
  msg_id :: jsstring
  msg_sender :: jsstring
  msg_text :: jsstring
  msg_timestamp :: jsstring
  msg_attachments :: "attachment list option"

definition getFileType :: "js_file \<Rightarrow> attachment_type" where
  "getFileType f =
     (if startsWith (file_type f) (js ''image/'') then Image
      else if startsWith (file_type f) (js ''audio/'') then Audio
      else if includes_s (file_type f) (js ''pdf'') \<or> includes_s (file_type f) (js ''document'')
              \<or> includes_s (file_type f) (js ''text'') then Document
      else Other)"

text \<open>
  \<open>bytes\<close> is a \<open>File.size\<close>: a natural number that the JavaScript number holds
  exactly (below \<open>2^53\<close>). Both divisors are powers of two, so the quotients are exact
  too, and \<open>toFixed\<close> rounds the exact quotient.
\<close>

definition formatFileSize :: "nat \<Rightarrow> jsstring" where
  "formatFileSize bytes =
     (if bytes < 1024 then numToString bytes @ js '' B''
      else if bytes < 1024 * 1024 then toFixed1 bytes 1024 @ js '' KB''
      else toFixed1 bytes (1024 * 1024) @ js '' MB'')"

text \<open>
  Modelled from the spec: \<open>SupportChat\<close> and its messages are declared in the admin
  context, which is not among the sources; the fields are those of the spec's data model.
  A canonical message has the fields of \<open>MessageWithAttachment\<close>.
\<close>

record chat =
  chat_id :: jsstring
  customerName :: jsstring
  lastMessage :: jsstring
  lastMessageTime :: jsstring
  unreadCount :: nat
  chat_status :: jsstring
  messages :: "message_with_attachment list"

text \<open>The notifications shown so far (\<open>toast.error\<close>, \<open>toast.success\<close>), oldest first.\<close>

datatype toast = ToastError jsstring | ToastSuccess jsstring

record ui =
  toasts :: "toast list"

text \<open>
  The state of the Support component: the chats of the admin context, the component's
  \<open>useState\<close> cells, and the value of the hidden file input (\<open>None\<close> when
  \<open>fileInputRef.current\<close> is null).
\<close>

record support_state = ui +
  chats :: "chat list"
  selectedChat :: "chat option"
  message :: jsstring
  chatSearchTerm :: jsstring
  attachments :: "attachment list"
  localMessages :: "message_with_attachment list"
  showChatList :: bool
  fileInputValue :: "jsstring option"

text \<open>
  The loop of \<open>handleFileSelect\<close> over the selected files. The accumulator is
  \<open>newAttachments\<close> and the notifications. \<open>newId k\<close> and \<open>newUrl k\<close> are what
  \<open>Date.now().toString() + Math.random().toString(36).substr(2, 9)\<close> and
  \<open>URL.createObjectURL(file)\<close> return for the attachment built after \<open>k\<close> others.
\<close>

fun forEachFile ::
  "(nat \<Rightarrow> jsstring) \<Rightarrow> (nat \<Rightarrow> jsstring) \<Rightarrow> js_file list
     \<Rightarrow> attachment list \<times> toast list \<Rightarrow> attachment list \<times> toast list" where
  "forEachFile newId newUrl [] acc = acc"
| "forEachFile newId newUrl (f # fs) (newAttachments, ts) =
     (if file_size f > 10 * 1024 * 1024
      then forEachFile newId newUrl fs
             (newAttachments,
              ts @ [ToastError (file_name f @ js '' is too large. Max file size is 10MB.'')])
      else forEachFile newId newUrl fs
             (newAttachments @
                [\<lparr>att_id = newId (length newAttachments),
                  att_name = file_name f,
                  att_type = getFileType f,
                  att_url = newUrl (length newAttachments),
                  att_size = formatFileSize (file_size f)\<rparr>],
              ts))"

text \<open>
  \<open>files\<close> is \<open>event.target.files\<close>, \<open>None\<close> when it is null. The handler's second
  parameter \<open>acceptType\<close> is never read.
\<close>

definition handleFileSelect ::
  "(nat \<Rightarrow> jsstring) \<Rightarrow> (nat \<Rightarrow> jsstring) \<Rightarrow> js_file list option
     \<Rightarrow> support_state \<Rightarrow> support_state" where
  "handleFileSelect newId newUrl files s =
     (case files of
        None \<Rightarrow> s
      | Some fs \<Rightarrow>
          (let (newAttachments, ts) = forEachFile newId newUrl fs ([], toasts s)
           in s\<lparr>attachments := attachments s @ newAttachments,
                toasts := ts @ [ToastSuccess (numToString (length newAttachments)
                                              @ js '' file(s) attached'')],
                fileInputValue := map_option (\<lambda>_. []) (fileInputValue s)\<rparr>))"

definition removeAttachment :: "jsstring \<Rightarrow> support_state \<Rightarrow> support_state" where
  "removeAttachment i s = s\<lparr>attachments := filter (\<lambda>a. att_id a \<noteq> i) (attachments s)\<rparr>"

text \<open>
  \<open>nowId\<close> is \<open>Date.now().toString()\<close> and \<open>nowIso\<close> is
  \<open>new Date().toISOString()\<close> at the time of the call.
\<close>

definition handleSendMessage :: "jsstring \<Rightarrow> jsstring \<Rightarrow> support_state \<Rightarrow> support_state" where
  "handleSendMessage nowId nowIso s =
     (if trim (message s) = [] \<and> length (attachments s) = 0 then s
      else
        (let newMessage =
               \<lparr>msg_id = nowId,
                msg_sender = js ''admin'',
                msg_text = message s,
                msg_timestamp = nowIso,
                msg_attachments =
                  (if length (attachments s) > 0 then Some (attachments s) else None)\<rparr>
         in s\<lparr>localMessages := localMessages s @ [newMessage],
              message := [],
              attachments := [],
              toasts := toasts s @ [ToastSuccess (js ''Message sent'')]\<rparr>))"

text \<open>\<open>chats[0]\<close>, \<open>None\<close> when the list is empty.\<close>

definition firstChat :: "chat list \<Rightarrow> chat option" where
  "firstChat cs = (case cs of [] \<Rightarrow> None | c # _ \<Rightarrow> Some c)"

text \<open>
  \<open>allMessages\<close>. \<open>selectedChat?.id\<close> and \<open>chats[0]?.id\<close> are undefined
  (\<open>None\<close>) when there is no such chat, and \<open>===\<close> holds between two undefined values.
\<close>

definition allMessages :: "support_state \<Rightarrow> message_with_attachment list" where
  "allMessages s =
     map (\<lambda>m. m\<lparr>msg_attachments := None\<rparr>)
         (case selectedChat s of None \<Rightarrow> [] | Some c \<Rightarrow> messages c)
     @ filter (\<lambda>m. map_option chat_id (selectedChat s) = map_option chat_id (firstChat (chats s)))
         (localMessages s)"

section \<open>Products screen\<close>

text \<open>
  Modelled from the spec: \<open>Product\<close> is declared in the admin context, which is not
  among the sources; the fields are those of the spec's data model.
\<close>

record product =
  product_id :: jsstring
  name :: jsstring
  partNumber :: jsstring
  category :: jsstring
  model :: jsstring
  price :: int
  stock :: nat
  status :: jsstring
  images :: "jsstring list"
  supplier :: jsstring

text \<open>
  The state of the Products component: the products of the admin context and the
  component's \<open>useState\<close> cells. \<open>imageUrls\<close> is a \<open>string[]\<close>.
\<close>

record products_state = ui +
  products :: "product list"
  searchTerm :: jsstring
  categoryFilter :: jsstring
  imageUrls :: "jsstring list"

definition initial :: "product list \<Rightarrow> products_state" where
  "initial ps =
     \<lparr>toasts = [], products = ps, searchTerm = [], categoryFilter = js ''all'',
      imageUrls = [[]]\<rparr>"


definition addImageUrl :: "products_state \<Rightarrow> products_state" where
  "addImageUrl s =
     (if length (imageUrls s) < 10 then s\<lparr>imageUrls := imageUrls s @ [[]]\<rparr> else s)"

text \<open>\<open>imageUrls.filter((_, i) => i !== index)\<close>: the entries paired with their positions.\<close>

definition removeImageUrl :: "nat \<Rightarrow> products_state \<Rightarrow> products_state" where
  "removeImageUrl index s =
     (if length (imageUrls s) > 1
      then s\<lparr>imageUrls := map snd (filter (\<lambda>(i, _). i \<noteq> index) (enumerate 0 (imageUrls s)))\<rparr>
      else s)"

text \<open>
  \<open>updateImageUrl\<close> changes nothing but \<open>imageUrls\<close>; its value here is the array
  \<open>newUrls\<close> that it hands to \<open>setImageUrls\<close>. \<open>[...imageUrls]\<close> copies the
  \<open>string[]\<close>, and \<open>newUrls[index] = value\<close> overwrites an entry when
  \<open>index < newUrls.length\<close>; from the length on, JavaScript grows the array to
  \<open>index + 1\<close> entries and the entries in between are holes (\<open>None\<close>).
\<close>

definition updateImageUrl :: "nat \<Rightarrow> jsstring \<Rightarrow> products_state \<Rightarrow> jsstring option list" where
  "updateImageUrl index v s =
     (let newUrls = map Some (imageUrls s)
      in if index < length newUrls then newUrls[index := Some v]
         else newUrls @ replicate (index - length newUrls) None @ [Some v])"

definition handleAddProduct :: "products_state \<Rightarrow> products_state" where
  "handleAddProduct s =
     (let validUrls = filter (\<lambda>url. trim url \<noteq> []) (imageUrls s)
      in if length validUrls = 0
         then s\<lparr>toasts := toasts s @ [ToastError (js ''Please add at least one product image'')]\<rparr>
         else s\<lparr>toasts := toasts s @ [ToastSuccess (js ''Product added successfully'')],
                imageUrls := [[]]\<rparr>)"

section \<open>Notions used to state the properties\<close>

text \<open>The natural number that a string of decimal digits denotes.\<close>

definition decimalValue :: "jsstring \<Rightarrow> nat" where
  "decimalValue ds = foldl (\<lambda>a c. 10 * a + (unat c - 48)) 0 ds"

text \<open>The attachment that \<open>handleFileSelect\<close> builds for an accepted file, after \<open>k\<close> others.\<close>

definition attachmentOf ::
  "(nat \<Rightarrow> jsstring) \<Rightarrow> (nat \<Rightarrow> jsstring) \<Rightarrow> nat \<Rightarrow> js_file \<Rightarrow> attachment" where
  "attachmentOf newId newUrl k f =
     \<lparr>att_id = newId k, att_name = file_name f, att_type = getFileType f,
      att_url = newUrl k, att_size = formatFileSize (file_size f)\<rparr>"

text \<open>The notification for a rejected file.\<close>

definition tooLarge :: "js_file \<Rightarrow> toast" where
  "tooLarge f = ToastError (file_name f @ js '' is too large. Max file size is 10MB.'')"

section \<open>Properties of the string built-ins\<close>

lemma startsWith_prefix: "startsWith s p \<longleftrightarrow> prefix p s"
proof
  assume "startsWith s p"
  then have "s = p @ drop (length p) s"
    by (metis startsWith_def append_take_drop_id)
  then show "prefix p s" by (rule prefixI)
next
  assume "prefix p s"
  then show "startsWith s p" by (auto simp: startsWith_def prefix_def)
qed

lemma includes_s_sublist: "includes_s s p \<longleftrightarrow> sublist p s"
proof (induction s)
  case Nil
  then show ?case by simp
next
  case (Cons c cs)
  then show ?case by (simp add: startsWith_prefix sublist_Cons_right)
qed

text \<open>A string is blank, that is empty after \<open>trim\<close>, when all its code units are white space.\<close>

lemma dropWhile_all: "(\<forall>x \<in> set (dropWhile P xs). P x) \<longleftrightarrow> (\<forall>x \<in> set xs. P x)"
  by (induction xs) auto

lemma trim_empty_iff: "trim s = [] \<longleftrightarrow> (\<forall>c \<in> set s. isWhiteSpace c)"
  by (simp add: trim_def dropWhile_eq_Nil_conv dropWhile_all)

section \<open>File classification\<close>

text \<open>
  C1. \<open>getFileType\<close> classifies a file by its MIME type, the rules taken in order: a type
  that starts with "image/" is an image; else one that starts with "audio/" is audio; else
  one that contains "pdf", "document" or "text" is a document; any other type is other.
\<close>

theorem getFileType_classifies:
  "getFileType f =
     (if prefix (js ''image/'') (file_type f) then Image
      else if prefix (js ''audio/'') (file_type f) then Audio
      else if sublist (js ''pdf'') (file_type f) \<or> sublist (js ''document'') (file_type f)
              \<or> sublist (js ''text'') (file_type f) then Document
      else Other)"
  by (simp add: getFileType_def startsWith_prefix includes_s_sublist)

theorem getFileType_classifies_witness:
  "getFileType \<lparr>file_name = js ''a.png'', file_type = js ''image/png'', file_size = 5120\<rparr> = Image
   \<and> getFileType \<lparr>file_name = js ''a.mp3'', file_type = js ''audio/mpeg'', file_size = 5120\<rparr> = Audio
   \<and> getFileType \<lparr>file_name = js ''a.pdf'', file_type = js ''application/pdf'', file_size = 5120\<rparr>
       = Document
   \<and> getFileType \<lparr>file_name = js ''a.txt'', file_type = js ''text/plain'', file_size = 5120\<rparr>
       = Document
   \<and> getFileType \<lparr>file_name = js ''a.zip'', file_type = js ''application/zip'', file_size = 5120\<rparr>
       = Other
   \<and> getFileType \<lparr>file_name = js ''a.x'', file_type = js ''image/x-pdf'', file_size = 5120\<rparr> = Image"
  using getFileType_classifies
    [of "\<lparr>file_name = js ''a.png'', file_type = js ''image/png'', file_size = 5120\<rparr>"]
  by (simp add: getFileType_def startsWith_def js_def)

section \<open>Numbers as strings\<close>

lemma unat_digitChar: "d < 10 \<Longrightarrow> unat (digitChar d) = 48 + d"
proof -
  assume d: "d < 10"
  have "unat (digitChar d) = (48 + d) mod 2 ^ LENGTH(16)"
    unfolding digitChar_def by (rule unat_of_nat)
  also have "\<dots> = 48 + d" using d by simp
  finally show ?thesis .
qed

lemma decimalValue_snoc:
  "decimalValue (ds @ [c]) = 10 * decimalValue ds + (unat c - 48)"
  by (simp add: decimalValue_def)

lemma decimalValue_numToString: "decimalValue (numToString n) = n"
proof (induction n rule: numToString.induct)
  case (1 n)
  show ?case
  proof (cases "n < 10")
    case True
    then show ?thesis
      by (simp add: numToString.simps [of n] decimalValue_def unat_digitChar)
  next
    case False
    then have "decimalValue (numToString (n div 10)) = n div 10"
      using "1.IH" by simp
    then show ?thesis
      using False
      by (simp add: numToString.simps [of n] decimalValue_snoc unat_digitChar)
  qed
qed

lemma nearest_tenth:
  assumes "0 < den"
  shows "- (1 / 20) < real ((20 * num + den) div (2 * den)) / 10 - real num / real den
       \<and> real ((20 * num + den) div (2 * den)) / 10 - real num / real den \<le> 1 / 20"
proof -
  define q where "q = (20 * num + den) div (2 * den)"
  define r where "r = (20 * num + den) mod (2 * den)"
  have eq: "20 * num + den = 2 * den * q + r"
    by (simp add: q_def r_def)
  have r: "r < 2 * den"
    using assms by (simp add: r_def)
  have "real (20 * num + den) = real (2 * den * q + r)"
    using eq by simp
  then have req: "20 * real num + real den = 2 * real den * real q + real r"
    by simp
  have dpos: "0 < real den" using assms by simp
  have num: "real num = (2 * real den * real q + real r - real den) / 20"
    using req by simp
  have diff: "real q / 10 - real num / real den = (real den - real r) / (20 * real den)"
    unfolding num using dpos by (simp add: field_simps)
  have lo: "- real den < real den - real r"
    using r by (simp add: of_nat_less_iff [symmetric, where 'a = real] del: of_nat_less_iff)
  have hi: "real den - real r \<le> real den" by simp
  have "- (1 / 20) < (real den - real r) / (20 * real den)"
    using lo dpos by (simp add: field_simps)
  moreover have "(real den - real r) / (20 * real den) \<le> 1 / 20"
    using hi dpos by (simp add: field_simps)
  ultimately show ?thesis
    unfolding q_def [symmetric] diff by simp
qed

lemma numToString_small: "n < 10 \<Longrightarrow> numToString n = [digitChar n]"
  by (simp add: numToString.simps)

lemma numToString_big: "10 \<le> n \<Longrightarrow> numToString n = numToString (n div 10) @ [digitChar (n mod 10)]"
  by (subst numToString.simps) simp

lemma length_numToString_pos: "0 < length (numToString n)"
  by (subst numToString.simps) simp

lemma toFixed1_digits:
  "toFixed1 num den =
     numToString ((20 * num + den) div (2 * den) div 10) @ js ''.'' @
     [digitChar ((20 * num + den) div (2 * den) mod 10)]"
proof (cases "(20 * num + den) div (2 * den) < 10")
  case True
  then show ?thesis
    by (simp add: toFixed1_def Let_def numToString_small)
next
  case False
  then have big: "10 \<le> (20 * num + den) div (2 * den)" by simp
  have pos: "0 < length (numToString ((20 * num + den) div (2 * den) div 10))"
    by (rule length_numToString_pos)
  show ?thesis
    using pos by (simp add: toFixed1_def Let_def numToString_big [OF big] numToString_small)
qed

lemma toFixed1_rounds:
  assumes "0 < den"
  shows "\<exists>q d. d < 10 \<and> toFixed1 num den = numToString q @ js ''.'' @ [digitChar d]
           \<and> - (1 / 20) < real (10 * q + d) / 10 - real num / real den
           \<and> real (10 * q + d) / 10 - real num / real den \<le> 1 / 20"
proof -
  let ?n = "(20 * num + den) div (2 * den)"
  have n: "10 * (?n div 10) + ?n mod 10 = ?n" by simp
  have "?n mod 10 < 10" by simp
  moreover have "toFixed1 num den = numToString (?n div 10) @ js ''.'' @ [digitChar (?n mod 10)]"
    by (rule toFixed1_digits)
  moreover have "- (1 / 20) < real (10 * (?n div 10) + ?n mod 10) / 10 - real num / real den
       \<and> real (10 * (?n div 10) + ?n mod 10) / 10 - real num / real den \<le> 1 / 20"
    unfolding n using assms by (rule nearest_tenth)
  ultimately show ?thesis by blast
qed

text \<open>
  C5. For a byte count that a JavaScript number holds exactly (below \<open>2^53\<close>),
  \<open>formatFileSize\<close> returns: below 1024, the count in decimal followed by " B"; from 1024
  and below 1048576, the count divided by 1024, rounded to the nearest tenth (a tie goes up)
  and written with one decimal, followed by " KB"; from 1048576 on, the count divided by
  1048576 written the same way, followed by " MB".
\<close>

theorem formatFileSize_cases:
  assumes "bytes < 2 ^ 53"
  shows "(bytes < 1024 \<longrightarrow> formatFileSize bytes = numToString bytes @ js '' B'') \<and>
    (1024 \<le> bytes \<and> bytes < 1048576 \<longrightarrow>
       (\<exists>q d. d < 10 \<and> formatFileSize bytes = numToString q @ js ''.'' @ [digitChar d] @ js '' KB''
          \<and> - (1 / 20) < real (10 * q + d) / 10 - real bytes / 1024
          \<and> real (10 * q + d) / 10 - real bytes / 1024 \<le> 1 / 20)) \<and>
    (1048576 \<le> bytes \<longrightarrow>
       (\<exists>q d. d < 10 \<and> formatFileSize bytes = numToString q @ js ''.'' @ [digitChar d] @ js '' MB''
          \<and> - (1 / 20) < real (10 * q + d) / 10 - real bytes / 1048576
          \<and> real (10 * q + d) / 10 - real bytes / 1048576 \<le> 1 / 20))"
proof -
  have kb: "\<exists>q d. d < 10 \<and> toFixed1 bytes 1024 = numToString q @ js ''.'' @ [digitChar d]
           \<and> - (1 / 20) < real (10 * q + d) / 10 - real bytes / real (1024::nat)
           \<and> real (10 * q + d) / 10 - real bytes / real (1024::nat) \<le> 1 / 20"
    by (rule toFixed1_rounds) simp
  have mb: "\<exists>q d. d < 10 \<and> toFixed1 bytes 1048576 = numToString q @ js ''.'' @ [digitChar d]
           \<and> - (1 / 20) < real (10 * q + d) / 10 - real bytes / real (1048576::nat)
           \<and> real (10 * q + d) / 10 - real bytes / real (1048576::nat) \<le> 1 / 20"
    by (rule toFixed1_rounds) simp
  have 1: "bytes < 1024 \<longrightarrow> formatFileSize bytes = numToString bytes @ js '' B''"
    by (simp add: formatFileSize_def)
  have 2: "1024 \<le> bytes \<and> bytes < 1048576 \<longrightarrow>
       (\<exists>q d. d < 10 \<and> formatFileSize bytes = numToString q @ js ''.'' @ [digitChar d] @ js '' KB''
          \<and> - (1 / 20) < real (10 * q + d) / 10 - real bytes / 1024
          \<and> real (10 * q + d) / 10 - real bytes / 1024 \<le> 1 / 20)"
    using kb by (auto simp: formatFileSize_def)
  have 3: "1048576 \<le> bytes \<longrightarrow>
       (\<exists>q d. d < 10 \<and> formatFileSize bytes = numToString q @ js ''.'' @ [digitChar d] @ js '' MB''
          \<and> - (1 / 20) < real (10 * q + d) / 10 - real bytes / 1048576
          \<and> real (10 * q + d) / 10 - real bytes / 1048576 \<le> 1 / 20)"
    using mb by (auto simp: formatFileSize_def)
  from 1 2 3 show ?thesis by blast
qed

theorem formatFileSize_cases_witness:
  "(5120::nat) < 2 ^ 53 \<and> 1024 \<le> (5120::nat) \<and> (5120::nat) < 1048576 \<and>
   formatFileSize 5120 = js ''5.0 KB'' \<and>
   (\<exists>q d. d < 10 \<and> formatFileSize 5120 = numToString q @ js ''.'' @ [digitChar d] @ js '' KB''
          \<and> - (1 / 20) < real (10 * q + d) / 10 - real (5120::nat) / 1024
          \<and> real (10 * q + d) / 10 - real (5120::nat) / 1024 \<le> 1 / 20)"
proof -
  have h: "(5120::nat) < 2 ^ 53" by simp
  have v: "formatFileSize 5120 = js ''5.0 KB''"
    by (simp add: formatFileSize_def toFixed1_digits numToString.simps js_def digitChar_def)
  show ?thesis
    using h v formatFileSize_cases [OF h] by simp
qed

section \<open>Selecting files\<close>

lemma forEachFile_eq:
  "forEachFile newId newUrl fs (atts, ts) =
     (atts @ map (\<lambda>(k, f). attachmentOf newId newUrl k f)
               (enumerate (length atts) (filter (\<lambda>f. file_size f \<le> 10 * 1024 * 1024) fs)),
      ts @ map tooLarge (filter (\<lambda>f. file_size f > 10 * 1024 * 1024) fs))"
proof (induction fs arbitrary: atts ts)
  case Nil
  show ?case by simp
next
  case (Cons f fs)
  show ?case
  proof (cases "file_size f > 10 * 1024 * 1024")
    case True
    then show ?thesis
      by (simp add: Cons.IH tooLarge_def)
  next
    case False
    then show ?thesis
      by (simp add: Cons.IH attachmentOf_def)
  qed
qed

lemma handleFileSelect_fields:
  "attachments (handleFileSelect newId newUrl (Some fs) s) =
     attachments s @ map (\<lambda>(k, f). attachmentOf newId newUrl k f)
       (enumerate 0 (filter (\<lambda>f. file_size f \<le> 10 * 1024 * 1024) fs))"
  "toasts (handleFileSelect newId newUrl (Some fs) s) =
     toasts s @ map tooLarge (filter (\<lambda>f. file_size f > 10 * 1024 * 1024) fs)
       @ [ToastSuccess (numToString (length (filter (\<lambda>f. file_size f \<le> 10 * 1024 * 1024) fs))
                         @ js '' file(s) attached'')]"
  by (simp_all add: handleFileSelect_def forEachFile_eq)

text \<open>
  C2. For every list of selected files, \<open>handleFileSelect\<close> appends to the attachment
  list one attachment for each file of at most 10 MiB (10 * 1024 * 1024 bytes), in the order
  of the selection, and none for a file above 10 MiB; for each file above 10 MiB it emits
  an error notification naming the file.
\<close>

theorem handleFileSelect_rejects_oversized:
  "attachments (handleFileSelect newId newUrl (Some fs) s) =
     attachments s @ map (\<lambda>(k, f). attachmentOf newId newUrl k f)
       (enumerate 0 (filter (\<lambda>f. file_size f \<le> 10 * 1024 * 1024) fs))
   \<and> toasts (handleFileSelect newId newUrl (Some fs) s) =
     toasts s @ map tooLarge (filter (\<lambda>f. file_size f > 10 * 1024 * 1024) fs)
       @ [ToastSuccess (numToString (length (filter (\<lambda>f. file_size f \<le> 10 * 1024 * 1024) fs))
                         @ js '' file(s) attached'')]"
  by (simp add: handleFileSelect_fields)

theorem handleFileSelect_rejects_oversized_witness:
  "attachments (handleFileSelect (\<lambda>k. js ''id'') (\<lambda>k. js ''blob:1'')
      (Some [\<lparr>file_name = js ''a.png'', file_type = js ''image/png'', file_size = 5120\<rparr>,
             \<lparr>file_name = js ''b.bin'', file_type = js ''application/zip'', file_size = 11534336\<rparr>])
      \<lparr>toasts = [], chats = [], selectedChat = None, message = [], chatSearchTerm = [],
       attachments = [], localMessages = [], showChatList = True, fileInputValue = Some []\<rparr>)
   = [\<lparr>att_id = js ''id'', att_name = js ''a.png'', att_type = Image, att_url = js ''blob:1'',
       att_size = js ''5.0 KB''\<rparr>]
   \<and> toasts (handleFileSelect (\<lambda>k. js ''id'') (\<lambda>k. js ''blob:1'')
      (Some [\<lparr>file_name = js ''a.png'', file_type = js ''image/png'', file_size = 5120\<rparr>,
             \<lparr>file_name = js ''b.bin'', file_type = js ''application/zip'', file_size = 11534336\<rparr>])
      \<lparr>toasts = [], chats = [], selectedChat = None, message = [], chatSearchTerm = [],
       attachments = [], localMessages = [], showChatList = True, fileInputValue = Some []\<rparr>)
   = [ToastError (js ''b.bin is too large. Max file size is 10MB.''),
      ToastSuccess (js ''1 file(s) attached'')]"
  using handleFileSelect_rejects_oversized
    [of "\<lambda>k. js ''id''" "\<lambda>k. js ''blob:1''"
        "[\<lparr>file_name = js ''a.png'', file_type = js ''image/png'', file_size = 5120\<rparr>,
          \<lparr>file_name = js ''b.bin'', file_type = js ''application/zip'', file_size = 11534336\<rparr>]"
        "\<lparr>toasts = [], chats = [], selectedChat = None, message = [], chatSearchTerm = [],
          attachments = [], localMessages = [], showChatList = True, fileInputValue = Some []\<rparr>"]
  by (simp add: attachmentOf_def tooLarge_def getFileType_def startsWith_def formatFileSize_def
      toFixed1_digits numToString.simps js_def digitChar_def)

text \<open>
  C10. For every selection, empty or not, \<open>handleFileSelect\<close> emits one error
  notification for each file above the limit and then a success notification with the
  number of accepted files. When every selected file is above the limit, that last
  notification is "0 file(s) attached" and the attachment list is unchanged.
\<close>

theorem handleFileSelect_reports_count:
  "toasts (handleFileSelect newId newUrl (Some fs) s) =
     toasts s @ map tooLarge (filter (\<lambda>f. file_size f > 10 * 1024 * 1024) fs)
       @ [ToastSuccess (numToString (length (filter (\<lambda>f. file_size f \<le> 10 * 1024 * 1024) fs))
                         @ js '' file(s) attached'')]
   \<and> ((\<forall>f \<in> set fs. file_size f > 10 * 1024 * 1024) \<longrightarrow>
        toasts (handleFileSelect newId newUrl (Some fs) s) =
          toasts s @ map tooLarge fs @ [ToastSuccess (js ''0 file(s) attached'')]
        \<and> attachments (handleFileSelect newId newUrl (Some fs) s) = attachments s)"
proof -
  let ?s' = "handleFileSelect newId newUrl (Some fs) s"
  have zero: "numToString 0 @ js '' file(s) attached'' = js ''0 file(s) attached''"
    by (simp add: numToString.simps js_def digitChar_def)
  have rej: "toasts ?s' = toasts s @ map tooLarge fs @ [ToastSuccess (js ''0 file(s) attached'')]
          \<and> attachments ?s' = attachments s"
    if over: "\<forall>f \<in> set fs. file_size f > 10 * 1024 * 1024"
  proof -
    have none: "filter (\<lambda>f. file_size f \<le> 10 * 1024 * 1024) fs = []"
      using over by (auto simp: filter_empty_conv)
    have all: "filter (\<lambda>f. file_size f > 10 * 1024 * 1024) fs = fs"
      using over by (auto simp: filter_id_conv)
    show ?thesis
      unfolding handleFileSelect_fields none all by (simp add: zero)
  qed
  from handleFileSelect_fields(2) [of newId newUrl fs s] rej show ?thesis by blast
qed

theorem handleFileSelect_reports_count_witness:
  "file_size \<lparr>file_name = js ''b.bin'', file_type = js ''application/zip'', file_size = 11534336\<rparr>
       > 10 * 1024 * 1024
   \<and> toasts (handleFileSelect (\<lambda>k. js ''id'') (\<lambda>k. js ''blob:1'')
      (Some [\<lparr>file_name = js ''b.bin'', file_type = js ''application/zip'', file_size = 11534336\<rparr>])
      \<lparr>toasts = [], chats = [], selectedChat = None, message = [], chatSearchTerm = [],
       attachments = [], localMessages = [], showChatList = True, fileInputValue = Some []\<rparr>)
   = [ToastError (js ''b.bin is too large. Max file size is 10MB.''),
      ToastSuccess (js ''0 file(s) attached'')]
   \<and> attachments (handleFileSelect (\<lambda>k. js ''id'') (\<lambda>k. js ''blob:1'')
      (Some [\<lparr>file_name = js ''b.bin'', file_type = js ''application/zip'', file_size = 11534336\<rparr>])
      \<lparr>toasts = [], chats = [], selectedChat = None, message = [], chatSearchTerm = [],
       attachments = [], localMessages = [], showChatList = True, fileInputValue = Some []\<rparr>)
   = []"
  using handleFileSelect_reports_count
    [of "\<lambda>k. js ''id''" "\<lambda>k. js ''blob:1''"
        "[\<lparr>file_name = js ''b.bin'', file_type = js ''application/zip'', file_size = 11534336\<rparr>]"
        "\<lparr>toasts = [], chats = [], selectedChat = None, message = [], chatSearchTerm = [],
          attachments = [], localMessages = [], showChatList = True, fileInputValue = Some []\<rparr>"]
  by (simp add: tooLarge_def js_def numToString.simps digitChar_def)

section \<open>Sending a message\<close>

text \<open>
  C4. When the draft text is blank (empty after trimming) and the attachment list is empty,
  \<open>handleSendMessage\<close> changes nothing: no message is appended, the draft text and the
  attachment list stay as they are, and nothing is notified.
\<close>

theorem handleSendMessage_noop:
  assumes "trim (message s) = []" and "attachments s = []"
  shows "handleSendMessage nowId nowIso s = s"
  using assms by (simp add: handleSendMessage_def)

theorem handleSendMessage_noop_witness:
  "trim (message
     \<lparr>toasts = [], chats = [], selectedChat = None, message = js ''  '', chatSearchTerm = [],
      attachments = [], localMessages = [], showChatList = True, fileInputValue = None\<rparr>) = []
   \<and> attachments
     \<lparr>toasts = [], chats = [], selectedChat = None, message = js ''  '', chatSearchTerm = [],
      attachments = [], localMessages = [], showChatList = True, fileInputValue = None\<rparr> = []
   \<and> handleSendMessage (js ''1'') (js ''t'')
     \<lparr>toasts = [], chats = [], selectedChat = None, message = js ''  '', chatSearchTerm = [],
      attachments = [], localMessages = [], showChatList = True, fileInputValue = None\<rparr>
     = \<lparr>toasts = [], chats = [], selectedChat = None, message = js ''  '', chatSearchTerm = [],
      attachments = [], localMessages = [], showChatList = True, fileInputValue = None\<rparr>"
proof -
  have h1: "trim (message
     \<lparr>toasts = [], chats = [], selectedChat = None, message = js ''  '', chatSearchTerm = [],
      attachments = [], localMessages = [], showChatList = True, fileInputValue = None\<rparr>) = []"
    by (simp add: trim_def isWhiteSpace_def js_def)
  have h2: "attachments
     \<lparr>toasts = [], chats = [], selectedChat = None, message = js ''  '', chatSearchTerm = [],
      attachments = [], localMessages = [], showChatList = True, fileInputValue = None\<rparr> = []"
    by simp
  show ?thesis
    using h1 h2 handleSendMessage_noop [OF h1 h2, of "js ''1''" "js ''t''"] by simp
qed

text \<open>
  C3, as amended. When the draft text is not blank, \<open>handleSendMessage\<close> appends exactly
  one message to the local message list, with sender "admin", the draft text as its text,
  and an attachments field that is the attachment list at send time when that list is not
  empty and undefined when it is empty; afterwards the draft text is the empty string and
  the attachment list is empty.
\<close>

theorem handleSendMessage_appends:
  assumes "trim (message s) \<noteq> []"
  shows "localMessages (handleSendMessage nowId nowIso s) =
       localMessages s @
         [\<lparr>msg_id = nowId, msg_sender = js ''admin'', msg_text = message s,
           msg_timestamp = nowIso,
           msg_attachments = (if attachments s = [] then None else Some (attachments s))\<rparr>]
     \<and> message (handleSendMessage nowId nowIso s) = []
     \<and> attachments (handleSendMessage nowId nowIso s) = []"
  using assms by (simp add: handleSendMessage_def)

theorem handleSendMessage_appends_witness:
  "trim (message
     \<lparr>toasts = [], chats = [], selectedChat = None, message = js '' hi '', chatSearchTerm = [],
      attachments = [\<lparr>att_id = js ''a1'', att_name = js ''a.png'', att_type = Image,
                      att_url = js ''blob:1'', att_size = js ''5.0 KB''\<rparr>],
      localMessages = [], showChatList = True, fileInputValue = None\<rparr>) \<noteq> []
   \<and> localMessages (handleSendMessage (js ''1'') (js ''t'')
     \<lparr>toasts = [], chats = [], selectedChat = None, message = js '' hi '', chatSearchTerm = [],
      attachments = [\<lparr>att_id = js ''a1'', att_name = js ''a.png'', att_type = Image,
                      att_url = js ''blob:1'', att_size = js ''5.0 KB''\<rparr>],
      localMessages = [], showChatList = True, fileInputValue = None\<rparr>)
     = [\<lparr>msg_id = js ''1'', msg_sender = js ''admin'', msg_text = js '' hi '',
         msg_timestamp = js ''t'',
         msg_attachments = Some [\<lparr>att_id = js ''a1'', att_name = js ''a.png'', att_type = Image,
                      att_url = js ''blob:1'', att_size = js ''5.0 KB''\<rparr>]\<rparr>]"
proof -
  have h: "trim (message
     \<lparr>toasts = [], chats = [], selectedChat = None, message = js '' hi '', chatSearchTerm = [],
      attachments = [\<lparr>att_id = js ''a1'', att_name = js ''a.png'', att_type = Image,
                      att_url = js ''blob:1'', att_size = js ''5.0 KB''\<rparr>],
      localMessages = [], showChatList = True, fileInputValue = None\<rparr>) \<noteq> []"
    by (simp add: trim_def isWhiteSpace_def js_def)
  show ?thesis
    using h handleSendMessage_appends [OF h, of "js ''1''" "js ''t''"] by simp
qed

text \<open>
  The attachments field is not the attachment list when that list is empty: sending "hi"
  with no attachment appends a message whose attachments field is undefined.
\<close>

theorem handleSendMessage_attachments_counterexample:
  "trim (message
     \<lparr>toasts = [], chats = [], selectedChat = None, message = js ''hi'', chatSearchTerm = [],
      attachments = [], localMessages = [], showChatList = True, fileInputValue = None\<rparr>) \<noteq> []
   \<and> map msg_attachments (localMessages (handleSendMessage (js ''1'') (js ''t'')
     \<lparr>toasts = [], chats = [], selectedChat = None, message = js ''hi'', chatSearchTerm = [],
      attachments = [], localMessages = [], showChatList = True, fileInputValue = None\<rparr>))
     = [None]
   \<and> map msg_attachments (localMessages (handleSendMessage (js ''1'') (js ''t'')
     \<lparr>toasts = [], chats = [], selectedChat = None, message = js ''hi'', chatSearchTerm = [],
      attachments = [], localMessages = [], showChatList = True, fileInputValue = None\<rparr>))
     \<noteq> [Some (attachments
     \<lparr>toasts = [], chats = [], selectedChat = None, message = js ''hi'', chatSearchTerm = [],
      attachments = [], localMessages = [], showChatList = True, fileInputValue = None\<rparr>)]"
  by (simp add: handleSendMessage_def trim_def isWhiteSpace_def js_def)

section \<open>The displayed messages\<close>

text \<open>
  C8. With a chat selected, the displayed messages are the selected chat's messages, each
  with its attachments field undefined, followed by the local messages when the selected
  chat's id is the id of the first chat of the chat list, and by nothing otherwise.
\<close>

theorem allMessages_selected:
  assumes "selectedChat s = Some c"
  shows "allMessages s =
       map (\<lambda>m. m\<lparr>msg_attachments := None\<rparr>) (messages c)
       @ (if chats s \<noteq> [] \<and> chat_id c = chat_id (hd (chats s)) then localMessages s else [])"
  using assms by (cases "chats s") (simp_all add: allMessages_def firstChat_def)

theorem allMessages_selected_witness:
  "selectedChat
     \<lparr>toasts = [],
      chats = [\<lparr>chat_id = js ''c1'', customerName = js ''A'', lastMessage = [], lastMessageTime = [],
                unreadCount = 0, chat_status = js ''open'', messages = []\<rparr>,
               \<lparr>chat_id = js ''c2'', customerName = js ''B'', lastMessage = [], lastMessageTime = [],
                unreadCount = 0, chat_status = js ''open'',
                messages = [\<lparr>msg_id = js ''m1'', msg_sender = js ''customer'', msg_text = js ''hello'',
                             msg_timestamp = js ''t0'', msg_attachments = Some []\<rparr>]\<rparr>],
      selectedChat = Some \<lparr>chat_id = js ''c2'', customerName = js ''B'', lastMessage = [],
                lastMessageTime = [], unreadCount = 0, chat_status = js ''open'',
                messages = [\<lparr>msg_id = js ''m1'', msg_sender = js ''customer'', msg_text = js ''hello'',
                             msg_timestamp = js ''t0'', msg_attachments = Some []\<rparr>]\<rparr>,
      message = [], chatSearchTerm = [], attachments = [],
      localMessages = [\<lparr>msg_id = js ''1'', msg_sender = js ''admin'', msg_text = js ''hi'',
                         msg_timestamp = js ''t'', msg_attachments = None\<rparr>],
      showChatList = False, fileInputValue = None\<rparr>
   = Some \<lparr>chat_id = js ''c2'', customerName = js ''B'', lastMessage = [],
                lastMessageTime = [], unreadCount = 0, chat_status = js ''open'',
                messages = [\<lparr>msg_id = js ''m1'', msg_sender = js ''customer'', msg_text = js ''hello'',
                             msg_timestamp = js ''t0'', msg_attachments = Some []\<rparr>]\<rparr>
   \<and> allMessages
     \<lparr>toasts = [],
      chats = [\<lparr>chat_id = js ''c1'', customerName = js ''A'', lastMessage = [], lastMessageTime = [],
                unreadCount = 0, chat_status = js ''open'', messages = []\<rparr>,
               \<lparr>chat_id = js ''c2'', customerName = js ''B'', lastMessage = [], lastMessageTime = [],
                unreadCount = 0, chat_status = js ''open'',
                messages = [\<lparr>msg_id = js ''m1'', msg_sender = js ''customer'', msg_text = js ''hello'',
                             msg_timestamp = js ''t0'', msg_attachments = Some []\<rparr>]\<rparr>],
      selectedChat = Some \<lparr>chat_id = js ''c2'', customerName = js ''B'', lastMessage = [],
                lastMessageTime = [], unreadCount = 0, chat_status = js ''open'',
                messages = [\<lparr>msg_id = js ''m1'', msg_sender = js ''customer'', msg_text = js ''hello'',
                             msg_timestamp = js ''t0'', msg_attachments = Some []\<rparr>]\<rparr>,
      message = [], chatSearchTerm = [], attachments = [],
      localMessages = [\<lparr>msg_id = js ''1'', msg_sender = js ''admin'', msg_text = js ''hi'',
                         msg_timestamp = js ''t'', msg_attachments = None\<rparr>],
      showChatList = False, fileInputValue = None\<rparr>
   = [\<lparr>msg_id = js ''m1'', msg_sender = js ''customer'', msg_text = js ''hello'',
       msg_timestamp = js ''t0'', msg_attachments = None\<rparr>]"
  using allMessages_selected
    [of "\<lparr>toasts = [],
      chats = [\<lparr>chat_id = js ''c1'', customerName = js ''A'', lastMessage = [], lastMessageTime = [],
                unreadCount = 0, chat_status = js ''open'', messages = []\<rparr>,
               \<lparr>chat_id = js ''c2'', customerName = js ''B'', lastMessage = [], lastMessageTime = [],
                unreadCount = 0, chat_status = js ''open'',
                messages = [\<lparr>msg_id = js ''m1'', msg_sender = js ''customer'', msg_text = js ''hello'',
                             msg_timestamp = js ''t0'', msg_attachments = Some []\<rparr>]\<rparr>],
      selectedChat = Some \<lparr>chat_id = js ''c2'', customerName = js ''B'', lastMessage = [],
                lastMessageTime = [], unreadCount = 0, chat_status = js ''open'',
                messages = [\<lparr>msg_id = js ''m1'', msg_sender = js ''customer'', msg_text = js ''hello'',
                             msg_timestamp = js ''t0'', msg_attachments = Some []\<rparr>]\<rparr>,
      message = [], chatSearchTerm = [], attachments = [],
      localMessages = [\<lparr>msg_id = js ''1'', msg_sender = js ''admin'', msg_text = js ''hi'',
                         msg_timestamp = js ''t'', msg_attachments = None\<rparr>],
      showChatList = False, fileInputValue = None\<rparr>"
      "\<lparr>chat_id = js ''c2'', customerName = js ''B'', lastMessage = [],
                lastMessageTime = [], unreadCount = 0, chat_status = js ''open'',
                messages = [\<lparr>msg_id = js ''m1'', msg_sender = js ''customer'', msg_text = js ''hello'',
                             msg_timestamp = js ''t0'', msg_attachments = Some []\<rparr>]\<rparr>"]
  by (simp add: js_def)

text \<open>With no chat selected, the local messages are shown exactly when there is no chat at all.\<close>

lemma allMessages_none:
  "selectedChat s = None \<Longrightarrow> allMessages s = (if chats s = [] then localMessages s else [])"
  by (cases "chats s") (simp_all add: allMessages_def firstChat_def)

section \<open>The product list\<close>



section \<open>The add-product dialog\<close>

text \<open>
  C7. \<open>handleAddProduct\<close> never changes the products: when every image URL is blank it
  emits an error notification and leaves the image URLs as they are; otherwise it emits a
  success notification and resets the image URLs to a single empty entry.
\<close>

theorem handleAddProduct_frame:
  "products (handleAddProduct s) = products s
   \<and> (if \<forall>url \<in> set (imageUrls s). trim url = []
      then toasts (handleAddProduct s) =
             toasts s @ [ToastError (js ''Please add at least one product image'')]
           \<and> imageUrls (handleAddProduct s) = imageUrls s
      else toasts (handleAddProduct s) =
             toasts s @ [ToastSuccess (js ''Product added successfully'')]
           \<and> imageUrls (handleAddProduct s) = [[]])"
  by (auto simp: handleAddProduct_def Let_def filter_empty_conv)

theorem handleAddProduct_frame_witness:
  "trim (js '' '') = [] \<and> trim [] = [] \<and> trim (js ''http://x/a.png'') \<noteq> []
   \<and> handleAddProduct
        \<lparr>toasts = [], products = [], searchTerm = [], categoryFilter = js ''all'',
         imageUrls = [js '' '', js ''http://x/a.png'']\<rparr>
     = \<lparr>toasts = [ToastSuccess (js ''Product added successfully'')], products = [],
        searchTerm = [], categoryFilter = js ''all'', imageUrls = [[]]\<rparr>
   \<and> handleAddProduct
        \<lparr>toasts = [], products = [], searchTerm = [], categoryFilter = js ''all'',
         imageUrls = [js '' '', []]\<rparr>
     = \<lparr>toasts = [ToastError (js ''Please add at least one product image'')], products = [],
        searchTerm = [], categoryFilter = js ''all'', imageUrls = [js '' '', []]\<rparr>"
proof -
  have h1: "\<not> (\<forall>url \<in> set (imageUrls
        \<lparr>toasts = [], products = [], searchTerm = [], categoryFilter = js ''all'',
         imageUrls = [js '' '', js ''http://x/a.png'']\<rparr>). trim url = [])"
    by (simp add: trim_def isWhiteSpace_def js_def)
  have h2: "\<forall>url \<in> set (imageUrls
        \<lparr>toasts = [], products = [], searchTerm = [], categoryFilter = js ''all'',
         imageUrls = [js '' '', []]\<rparr>). trim url = []"
    by (simp add: trim_def isWhiteSpace_def js_def)
  show ?thesis
    using h1 h2
      handleAddProduct_frame [of "\<lparr>toasts = [], products = [], searchTerm = [],
         categoryFilter = js ''all'', imageUrls = [js '' '', js ''http://x/a.png'']\<rparr>"]
      handleAddProduct_frame [of "\<lparr>toasts = [], products = [], searchTerm = [],
         categoryFilter = js ''all'', imageUrls = [js '' '', []]\<rparr>"]
    by (simp add: handleAddProduct_def Let_def trim_def isWhiteSpace_def js_def)
qed

lemma filter_index_neq:
  "n \<le> index \<Longrightarrow>
   map snd (filter (\<lambda>(i, _). i \<noteq> index) (enumerate n xs)) =
     take (index - n) xs @ drop (Suc (index - n)) xs"
proof (induction xs arbitrary: n)
  case Nil
  show ?case by simp
next
  case (Cons x xs)
  show ?case
  proof (cases "n = index")
    case True
    have "filter (\<lambda>(i, _). i \<noteq> index) (enumerate (Suc index) xs) = enumerate (Suc index) xs"
      by (auto simp: filter_id_conv in_set_enumerate_eq)
    then show ?thesis using True by simp
  next
    case False
    then have "Suc n \<le> index" using Cons.prems by simp
    then have "map snd (filter (\<lambda>(i, _). i \<noteq> index) (enumerate (Suc n) xs)) =
        take (index - Suc n) xs @ drop (Suc (index - Suc n)) xs"
      by (rule Cons.IH)
    moreover have "index - n = Suc (index - Suc n)"
      using \<open>Suc n \<le> index\<close> by simp
    ultimately show ?thesis using False by simp
  qed
qed

lemma removeImageUrl_imageUrls:
  "imageUrls (removeImageUrl index s) =
     (if length (imageUrls s) > 1 then take index (imageUrls s) @ drop (Suc index) (imageUrls s)
      else imageUrls s)"
  using filter_index_neq [of 0 index "imageUrls s"] by (simp add: removeImageUrl_def)

lemma length_removeImageUrl:
  "length (imageUrls (removeImageUrl index s)) =
     (if length (imageUrls s) > 1 \<and> index < length (imageUrls s)
      then length (imageUrls s) - 1 else length (imageUrls s))"
  by (auto simp: removeImageUrl_imageUrls)

lemma length_addImageUrl:
  "length (imageUrls (addImageUrl s)) =
     (if length (imageUrls s) < 10 then Suc (length (imageUrls s)) else length (imageUrls s))"
  by (simp add: addImageUrl_def)

lemma length_updateImageUrl:
  "length (updateImageUrl index v s) = max (length (imageUrls s)) (Suc index)"
  by (auto simp: updateImageUrl_def Let_def)

lemma updateImageUrl_row:
  "index < length (imageUrls s) \<Longrightarrow>
   updateImageUrl index v s = map Some ((imageUrls s)[index := v])"
  by (simp add: updateImageUrl_def Let_def map_update)

lemma updateImageUrl_append:
  "updateImageUrl (length (imageUrls s)) v s = map Some (imageUrls s @ [v])"
  by (simp add: updateImageUrl_def Let_def)

lemma length_handleAddProduct:
  "length (imageUrls (handleAddProduct s)) = length (imageUrls s)
   \<or> length (imageUrls (handleAddProduct s)) = 1"
  by (simp add: handleAddProduct_def Let_def)

text \<open>
  C9, as amended. The image-URL list has one entry initially, and from a list of at least 1
  and at most 10 entries, \<open>addImageUrl\<close>, \<open>removeImageUrl\<close> and \<open>handleAddProduct\<close>
  leave a list of at least 1 and at most 10 entries, and so does \<open>updateImageUrl\<close> when it
  is called with the index of a displayed row (\<open>index < imageUrls.length\<close>): the array it
  stores is then the list with that one entry replaced, without a hole. \<open>addImageUrl\<close>
  changes nothing at 10 entries and \<open>removeImageUrl\<close> changes nothing at 1 entry.
\<close>

theorem imageUrls_length_preserved:
  assumes "1 \<le> length (imageUrls s)" and "length (imageUrls s) \<le> 10"
  shows "length (imageUrls (initial ps)) = 1
     \<and> 1 \<le> length (imageUrls (addImageUrl s)) \<and> length (imageUrls (addImageUrl s)) \<le> 10
     \<and> 1 \<le> length (imageUrls (removeImageUrl i s))
     \<and> length (imageUrls (removeImageUrl i s)) \<le> 10
     \<and> 1 \<le> length (imageUrls (handleAddProduct s))
     \<and> length (imageUrls (handleAddProduct s)) \<le> 10
     \<and> (index < length (imageUrls s) \<longrightarrow>
          updateImageUrl index v s = map Some ((imageUrls s)[index := v])
          \<and> 1 \<le> length (updateImageUrl index v s) \<and> length (updateImageUrl index v s) \<le> 10)
     \<and> (length (imageUrls s) = 10 \<longrightarrow> addImageUrl s = s)
     \<and> (length (imageUrls s) = 1 \<longrightarrow> removeImageUrl i s = s)"
proof -
  have init: "length (imageUrls (initial ps)) = 1"
    by (simp add: initial_def)
  have add: "1 \<le> length (imageUrls (addImageUrl s)) \<and> length (imageUrls (addImageUrl s)) \<le> 10"
    using assms by (simp add: length_addImageUrl)
  have remove: "1 \<le> length (imageUrls (removeImageUrl i s))
      \<and> length (imageUrls (removeImageUrl i s)) \<le> 10"
    using assms by (auto simp: length_removeImageUrl)
  have submit: "1 \<le> length (imageUrls (handleAddProduct s))
      \<and> length (imageUrls (handleAddProduct s)) \<le> 10"
    using assms length_handleAddProduct [of s] by auto
  have update: "index < length (imageUrls s) \<longrightarrow>
          updateImageUrl index v s = map Some ((imageUrls s)[index := v])
          \<and> 1 \<le> length (updateImageUrl index v s) \<and> length (updateImageUrl index v s) \<le> 10"
    using assms by (auto simp: updateImageUrl_row)
  have full: "length (imageUrls s) = 10 \<longrightarrow> addImageUrl s = s"
    by (simp add: addImageUrl_def)
  have single: "length (imageUrls s) = 1 \<longrightarrow> removeImageUrl i s = s"
    by (simp add: removeImageUrl_def)
  from init add remove submit update full single show ?thesis by blast
qed

theorem imageUrls_length_preserved_witness:
  "length [[], js ''http://x/a.png''] = 2
   \<and> imageUrls (addImageUrl
        \<lparr>toasts = [], products = [], searchTerm = [], categoryFilter = js ''all'',
         imageUrls = [[], js ''http://x/a.png'']\<rparr>) = [[], js ''http://x/a.png'', []]
   \<and> imageUrls (removeImageUrl 0
        \<lparr>toasts = [], products = [], searchTerm = [], categoryFilter = js ''all'',
         imageUrls = [[], js ''http://x/a.png'']\<rparr>) = [js ''http://x/a.png'']
   \<and> imageUrls (handleAddProduct
        \<lparr>toasts = [], products = [], searchTerm = [], categoryFilter = js ''all'',
         imageUrls = [[], js ''http://x/a.png'']\<rparr>) = [[]]
   \<and> updateImageUrl 0 (js ''http://x/b.png'')
        \<lparr>toasts = [], products = [], searchTerm = [], categoryFilter = js ''all'',
         imageUrls = [[], js ''http://x/a.png'']\<rparr>
       = [Some (js ''http://x/b.png''), Some (js ''http://x/a.png'')]
   \<and> length (updateImageUrl 0 (js ''http://x/b.png'')
        \<lparr>toasts = [], products = [], searchTerm = [], categoryFilter = js ''all'',
         imageUrls = [[], js ''http://x/a.png'']\<rparr>) = 2"
proof -
  have h1: "1 \<le> length (imageUrls
        \<lparr>toasts = [], products = [], searchTerm = [], categoryFilter = js ''all'',
         imageUrls = [[], js ''http://x/a.png'']\<rparr>)"
    by simp
  have h2: "length (imageUrls
        \<lparr>toasts = [], products = [], searchTerm = [], categoryFilter = js ''all'',
         imageUrls = [[], js ''http://x/a.png'']\<rparr>) \<le> 10"
    by simp
  show ?thesis
    using imageUrls_length_preserved [OF h1 h2, of "[]" 0 0 "js ''http://x/b.png''"]
    by (simp add: addImageUrl_def removeImageUrl_def handleAddProduct_def Let_def
        trim_def isWhiteSpace_def js_def enumerate_eq_zip upt_rec)
qed

text \<open>
  Without that condition \<open>updateImageUrl\<close> does not keep the bound: after nine calls of
  \<open>addImageUrl\<close> from the initial state the list has 10 entries, and
  \<open>updateImageUrl\<close> at index 10 stores an array of 11 entries, none of them a hole.
\<close>

theorem updateImageUrl_grows_counterexample:
  "addImageUrl (addImageUrl (addImageUrl (addImageUrl (addImageUrl (addImageUrl (addImageUrl
     (addImageUrl (addImageUrl (initial [])))))))))
   = \<lparr>toasts = [], products = [], searchTerm = [], categoryFilter = js ''all'',
      imageUrls = [[], [], [], [], [], [], [], [], [], []]\<rparr>
   \<and> length (imageUrls
       \<lparr>toasts = [], products = [], searchTerm = [], categoryFilter = js ''all'',
        imageUrls = [[], [], [], [], [], [], [], [], [], []]\<rparr>) = 10
   \<and> updateImageUrl 10 (js ''x'')
       \<lparr>toasts = [], products = [], searchTerm = [], categoryFilter = js ''all'',
        imageUrls = [[], [], [], [], [], [], [], [], [], []]\<rparr>
     = [Some [], Some [], Some [], Some [], Some [], Some [], Some [], Some [], Some [],
        Some [], Some (js ''x'')]
   \<and> length (updateImageUrl 10 (js ''x'')
       \<lparr>toasts = [], products = [], searchTerm = [], categoryFilter = js ''all'',
        imageUrls = [[], [], [], [], [], [], [], [], [], []]\<rparr>) = 11
   \<and> \<not> length (updateImageUrl 10 (js ''x'')
       \<lparr>toasts = [], products = [], searchTerm = [], categoryFilter = js ''all'',
        imageUrls = [[], [], [], [], [], [], [], [], [], []]\<rparr>) \<le> 10"
  by (simp add: initial_def addImageUrl_def updateImageUrl_def Let_def)

end
